theory Spec2Isabelle
  imports Main "HOL-Library.AList" "HOL-Library.Sublist"
begin

section \<open>Python values, errors and dictionaries\<close>

text \<open>
  The values that flow through \<^verbatim>\<open>System._step\<close>: Python's \<^verbatim>\<open>None\<close>, an opaque
  tensor-like value, and a \<^verbatim>\<open>dict\<close> with string keys, kept as an association list in
  insertion order (\<^verbatim>\<open>.items()\<close> iterates in that order).
\<close>

datatype 'v pyval = PyNone | Tensor 'v | PyDict "(string \<times> 'v pyval) list"

type_synonym 'v pydict = "(string \<times> 'v pyval) list"

text \<open>The exceptions raised by the modelled code, each with its message.\<close>

datatype error =
    TypeError string
  | ValueError string
  | AttributeError string
  | IndexError string
  | KeyError string

text \<open>\<^verbatim>\<open>d.get(k)\<close>: the value stored under \<open>k\<close>, \<^verbatim>\<open>None\<close> when the key is absent.\<close>

definition dict_get :: "'v pydict \<Rightarrow> string \<Rightarrow> 'v pyval" where
  "dict_get d k = (case map_of d k of None \<Rightarrow> PyNone | Some v \<Rightarrow> v)"

text \<open>\<^verbatim>\<open>isinstance(x, dict)\<close>.\<close>

fun is_dict :: "'v pyval \<Rightarrow> bool" where
  "is_dict (PyDict d) = True"
| "is_dict x = False"

section \<open>Modes and data keys\<close>

text \<open>
  Modelled from the spec: \<^verbatim>\<open>lighter.utils.types.Mode\<close> is not part of the sources at
  hand. The spec gives the enumeration train, val, test, predict, and the log names
  \<^verbatim>\<open>train/loss/...\<close> show how a mode is formatted into a string.
\<close>

datatype Mode = TRAIN | VAL | TEST | PREDICT

fun mode_str :: "Mode \<Rightarrow> string" where
  "mode_str TRAIN = ''train''"
| "mode_str VAL = ''val''"
| "mode_str TEST = ''test''"
| "mode_str PREDICT = ''predict''"

text \<open>
  Modelled from the spec: \<^verbatim>\<open>lighter.utils.types.Data\<close> is not part of the sources at
  hand. The spec names the entries of a step result input, target, pred and id.
\<close>

definition Data_INPUT :: string where "Data_INPUT = ''input''"
definition Data_TARGET :: string where "Data_TARGET = ''target''"
definition Data_PRED :: string where "Data_PRED = ''pred''"
definition Data_ID :: string where "Data_ID = ''id''"

section \<open>Batch validation\<close>

record 'v Batch =
  batch_id :: "'v pyval"
  batch_input :: "'v pyval"
  batch_target :: "'v pyval"

definition Batch_fields :: "string list" where
  "Batch_fields = [''id'', ''input'', ''target'']"

text \<open>
  Modelled from the spec: the constructor \<^verbatim>\<open>Batch(**batch)\<close> of
  \<^verbatim>\<open>lighter.utils.types\<close> is not part of the sources at hand. By the spec a Batch is
  \<^verbatim>\<open>{id: optional, input, target: optional}\<close>; construction fails if a key other than
  id, input, target appears or if input is missing, and an absent optional entry is
  \<^verbatim>\<open>None\<close>. The raw batch is the keyword dictionary, in insertion order.
\<close>

definition Batch_init :: "'v pydict \<Rightarrow> error + 'v Batch" where
  "Batch_init kwargs =
     (case filter (\<lambda>k. k \<notin> set Batch_fields) (map fst kwargs) of
        k # ks \<Rightarrow> Inl (TypeError (''unexpected key: '' @ k))
      | [] \<Rightarrow>
          (case map_of kwargs ''input'' of
             None \<Rightarrow> Inl (TypeError ''missing required key: input'')
           | Some x \<Rightarrow>
               Inr \<lparr>batch_id = dict_get kwargs ''id'',
                    batch_input = x,
                    batch_target = dict_get kwargs ''target''\<rparr>))"

text \<open>
  Modelled from the spec: a structured Batch read as the mapping of its three entries,
  which is how the spec's data model writes it. The sources at hand do not define it.
\<close>

definition Batch_as_dict :: "'v Batch \<Rightarrow> 'v pydict" where
  "Batch_as_dict b =
     [(''id'', batch_id b), (''input'', batch_input b), (''target'', batch_target b)]"

text \<open>
  The first lines of \<^verbatim>\<open>System._step\<close>:
  \<^verbatim>\<open>
  try:
      batch = Batch(**batch)
  except (TypeError, ValueError) as e:
      raise type(e)(f"Batch must be a dict with keys: 'input', 'target' (optional), 'id' (optional).\nError: {e}")
  \<close>
  The exception keeps its type and gets the message that names the schema; any other
  exception passes through.
\<close>

definition batch_schema_message :: string where
  "batch_schema_message =
     ''Batch must be a dict with keys: 'input', 'target' (optional), 'id' (optional).''"

definition reraise_batch_error :: "error \<Rightarrow> error" where
  "reraise_batch_error e =
     (case e of
        TypeError m \<Rightarrow> TypeError (batch_schema_message @ ''\<newline>Error: '' @ m)
      | ValueError m \<Rightarrow> ValueError (batch_schema_message @ ''\<newline>Error: '' @ m)
      | _ \<Rightarrow> e)"

definition validate_batch :: "'v pydict \<Rightarrow> error + 'v Batch" where
  "validate_batch batch =
     (case Batch_init batch of
        Inl e \<Rightarrow> Inl (reraise_batch_error e)
      | Inr b \<Rightarrow> Inr b)"

text \<open>The spec's InvalidBatchError: a TypeError or ValueError whose message starts with the schema.\<close>

fun is_invalid_batch_error :: "error \<Rightarrow> bool" where
  "is_invalid_batch_error (TypeError m) = prefix batch_schema_message m"
| "is_invalid_batch_error (ValueError m) = prefix batch_schema_message m"
| "is_invalid_batch_error e = False"

section \<open>The System and its collaborators\<close>

record 'v optimizer =
  param_groups :: "'v pydict list"

text \<open>
  One call of \<^verbatim>\<open>self.log(name, value, logger=True, batch_size=self.batch_size,
  on_step=on_step, on_epoch=on_epoch, sync_dist=on_epoch)\<close>, with its arguments.
\<close>

record 'v log_call =
  log_name :: string
  log_value :: "'v pyval"
  log_logger :: bool
  log_batch_size :: nat
  log_on_step :: bool
  log_on_epoch :: bool
  log_sync_dist :: bool

text \<open>
  What a step does to the outside, in the order it happens: the calls of the model, the
  inferer, the criterion and the metrics, and the calls of the engine's logger.
\<close>

datatype 'v event =
    ModelCall "'v pyval" "nat option" "nat option"
  | InfererCall "'v pyval"
  | CriterionCall "'v pyval" "'v pyval" "'v pyval"
  | MetricsCall Mode "'v pyval" "'v pyval"
  | LogCall "'v log_call"

text \<open>
  The attributes of a \<^verbatim>\<open>System\<close> that the modelled methods read. The model, the
  inferer, the criterion and the metrics are callables handed to the constructor; they are
  taken as functions that return. \<^verbatim>\<open>inferer\<close>, \<^verbatim>\<open>criterion\<close> and
  \<^verbatim>\<open>optimizer\<close> default to \<^verbatim>\<open>None\<close>. \<open>metrics\<close> is the module dictionary: a
  mode may be absent (outer \<open>None\<close>) or hold \<^verbatim>\<open>None\<close> (inner \<open>None\<close>).
  \<open>logger\<close> says that \<^verbatim>\<open>self.trainer.logger\<close> is not \<^verbatim>\<open>None\<close>. Two parts come
  from outside the sources at hand and are parameters: \<open>model_hasarg\<close> is
  \<^verbatim>\<open>hasarg(self.model.forward, _)\<close> and \<open>get_optimizer_stats\<close> is the function of that
  name in \<^verbatim>\<open>lighter.utils.misc\<close>. \<open>batch_size\<close> is the attribute
  \<^verbatim>\<open>self.batch_size\<close> read by \<^verbatim>\<open>_log\<close>: \<open>None\<close> as long as no such attribute has
  been set on the object, \<open>Some n\<close> once it has been set to \<open>n\<close>.
\<close>

record 'v system =
  model :: "'v pyval \<Rightarrow> nat option \<Rightarrow> nat option \<Rightarrow> 'v pyval"
  model_hasarg :: "string \<Rightarrow> bool"
  current_epoch :: nat
  global_step :: nat
  inferer :: "('v pyval \<Rightarrow> 'v pyval) option"
  criterion :: "('v pyval \<Rightarrow> 'v pyval \<Rightarrow> 'v pyval \<Rightarrow> 'v pyval) option"
  metrics :: "Mode \<Rightarrow> ('v pyval \<Rightarrow> 'v pyval \<Rightarrow> 'v pyval) option option"
  optimizer :: "'v optimizer option"
  get_optimizer_stats :: "'v optimizer option \<Rightarrow> 'v pydict"
  logger :: bool
  batch_size :: "nat option"

text \<open>
  The metrics handed to the constructor for one mode: a single metric, or a list or dict
  of metrics, kept here with their names.
\<close>

datatype 'v metric_arg =
    SingleMetric "'v pyval \<Rightarrow> 'v pyval \<Rightarrow> 'v pyval"
  | MetricGroup "(string \<times> ('v pyval \<Rightarrow> 'v pyval \<Rightarrow> 'v pyval)) list"

text \<open>
  Modelled from the spec: \<^verbatim>\<open>MetricCollection\<close> belongs to torchmetrics and is not part
  of the sources at hand. By the spec it is a named mapping of metric objects, and the
  metrics of a step are a mapping from name to value.
\<close>

definition MetricCollection ::
  "(string \<times> ('v pyval \<Rightarrow> 'v pyval \<Rightarrow> 'v pyval)) list \<Rightarrow> 'v pyval \<Rightarrow> 'v pyval \<Rightarrow> 'v pyval" where
  "MetricCollection ms pred tgt = PyDict (map (\<lambda>(name, m). (name, m pred tgt)) ms)"

text \<open>
  \<^verbatim>\<open>System.__init__\<close>:
  \<^verbatim>\<open>
  self.model = model
  self.criterion = criterion
  self.optimizer = optimizer
  self.scheduler = scheduler
  self.inferer = inferer
  metrics = metrics or {}
  for mode, metric in metrics.items():
      metrics[mode] = MetricCollection(metric) if isinstance(metric, (list, dict)) else metric
  self.metrics = PatchedModuleDict(metrics)
  \<close>
  A list or dict of metrics is wrapped, a single metric is kept as it is. The constructor
  sets no attribute \<^verbatim>\<open>batch_size\<close>. The scheduler and the dataloaders, which only bind
  the step methods of the modes, are left out. The last five arguments are not the
  constructor's: what \<^verbatim>\<open>hasarg\<close> says of the model, the engine's epoch and step
  counters, \<^verbatim>\<open>get_optimizer_stats\<close>, and whether the trainer has a logger.
\<close>

definition System_init ::
  "('v pyval \<Rightarrow> nat option \<Rightarrow> nat option \<Rightarrow> 'v pyval)
   \<Rightarrow> 'v optimizer option
   \<Rightarrow> ('v pyval \<Rightarrow> 'v pyval \<Rightarrow> 'v pyval \<Rightarrow> 'v pyval) option
   \<Rightarrow> (Mode \<Rightarrow> 'v metric_arg option)
   \<Rightarrow> ('v pyval \<Rightarrow> 'v pyval) option
   \<Rightarrow> (string \<Rightarrow> bool) \<Rightarrow> nat \<Rightarrow> nat
   \<Rightarrow> ('v optimizer option \<Rightarrow> 'v pydict) \<Rightarrow> bool
   \<Rightarrow> 'v system" where
  "System_init mdl opt crit mtr infr hasarg epoch gstep stats lg =
     \<lparr>model = mdl, model_hasarg = hasarg, current_epoch = epoch, global_step = gstep,
      inferer = infr, criterion = crit,
      metrics = (\<lambda>mode. case mtr mode of
                   None \<Rightarrow> None
                 | Some (SingleMetric m) \<Rightarrow> Some (Some m)
                 | Some (MetricGroup ms) \<Rightarrow> Some (Some (MetricCollection ms))),
      optimizer = opt, get_optimizer_stats = stats, logger = lg, batch_size = None\<rparr>"

section \<open>Forward pass\<close>

text \<open>
  \<^verbatim>\<open>System.forward\<close>: \<^verbatim>\<open>epoch\<close> and \<^verbatim>\<open>step\<close> are passed to the model exactly
  when its forward method accepts them.
\<close>

definition forward :: "'v system \<Rightarrow> 'v pyval \<Rightarrow> 'v pyval \<times> 'v event list" where
  "forward sys inp =
     (let epoch = (if model_hasarg sys ''epoch'' then Some (current_epoch sys) else None);
          stp = (if model_hasarg sys ''step'' then Some (global_step sys) else None)
      in (model sys inp epoch stp, [ModelCall inp epoch stp]))"

section \<open>Stats logger\<close>

text \<open>
  \<^verbatim>\<open>System._log\<close>:
  \<^verbatim>\<open>
  self.log(name, value, logger=True, batch_size=self.batch_size,
           on_step=on_step, on_epoch=on_epoch, sync_dist=on_epoch)
  \<close>
  The arguments are evaluated before the call: reading \<^verbatim>\<open>self.batch_size\<close> raises an
  AttributeError when the attribute has never been set, and then nothing is logged.
  Otherwise the record is logged, with \<^verbatim>\<open>sync_dist\<close> equal to \<^verbatim>\<open>on_epoch\<close>.
\<close>

definition log_entry ::
  "'v system \<Rightarrow> string \<Rightarrow> 'v pyval \<Rightarrow> bool \<Rightarrow> bool \<Rightarrow> error + 'v event" where
  "log_entry sys name val on_step on_epoch =
     (case batch_size sys of
        None \<Rightarrow> Inl (AttributeError ''batch_size'')
      | Some n \<Rightarrow>
          Inr (LogCall \<lparr>log_name = name, log_value = val, log_logger = True,
                        log_batch_size = n,
                        log_on_step = on_step, log_on_epoch = on_epoch,
                        log_sync_dist = on_epoch\<rparr>))"

text \<open>
  Calls of \<^verbatim>\<open>_log\<close> made one after the other: the first exception ends the sequence,
  and the records logged before it stay logged.
\<close>

fun run_logs :: "(error + 'v event) list \<Rightarrow> (error + unit) \<times> 'v event list" where
  "run_logs [] = (Inr (), [])"
| "run_logs (Inl e # calls) = (Inl e, [])"
| "run_logs (Inr ev # calls) = (case run_logs calls of (r, evs) \<Rightarrow> (r, ev # evs))"

text \<open>One part of a method after another: the second part runs only if the first returned.\<close>

definition and_then ::
  "(error + unit) \<times> 'e list \<Rightarrow> (error + unit) \<times> 'e list \<Rightarrow> (error + unit) \<times> 'e list" where
  "and_then p q =
     (case p of
        (Inl e, evs) \<Rightarrow> (Inl e, evs)
      | (Inr u, evs) \<Rightarrow> (fst q, evs @ snd q))"

text \<open>The two calls of \<^verbatim>\<open>_log\<close> made for one value: the step record, then the epoch record.\<close>

definition log_step_epoch :: "'v system \<Rightarrow> string \<Rightarrow> 'v pyval \<Rightarrow> (error + 'v event) list" where
  "log_step_epoch sys pre val =
     [log_entry sys (pre @ ''/step'') val True False,
      log_entry sys (pre @ ''/epoch'') val False True]"

text \<open>
  The loss part of \<^verbatim>\<open>System._log_stats\<close>, as the calls of \<^verbatim>\<open>_log\<close> it makes in order:
  \<^verbatim>\<open>
  if loss is not None:
      if not isinstance(loss, dict):
          self._log(f"{mode}/loss/step", loss, on_step=True)
          self._log(f"{mode}/loss/epoch", loss, on_epoch=True)
      else:
          for name, subloss in loss.items():
              self._log(f"{mode}/loss/{name}/step", subloss, on_step=True)
              self._log(f"{mode}/loss/{name}/epoch", subloss, on_epoch=True)
  \<close>
\<close>

fun log_loss :: "'v system \<Rightarrow> 'v pyval \<Rightarrow> Mode \<Rightarrow> (error + 'v event) list" where
  "log_loss sys PyNone mode = []"
| "log_loss sys (PyDict d) mode =
     concat (map (\<lambda>(name, subloss).
        log_step_epoch sys (mode_str mode @ ''/loss/'' @ name) subloss) d)"
| "log_loss sys loss mode = log_step_epoch sys (mode_str mode @ ''/loss'') loss"

text \<open>
  The metrics part:
  \<^verbatim>\<open>
  if metrics is not None:
      for name, metric in metrics.items():
          self._log(f"{mode}/metrics/{name}/step", metric, on_step=True)
          self._log(f"{mode}/metrics/{name}/epoch", metric, on_epoch=True)
  \<close>
  A value that is neither \<^verbatim>\<open>None\<close> nor a mapping has no \<^verbatim>\<open>items\<close>: the
  AttributeError is raised before any metric is logged.
\<close>

fun log_metrics :: "'v system \<Rightarrow> 'v pyval \<Rightarrow> Mode \<Rightarrow> (error + unit) \<times> 'v event list" where
  "log_metrics sys PyNone mode = (Inr (), [])"
| "log_metrics sys (PyDict d) mode =
     run_logs (concat (map (\<lambda>(name, metric).
        log_step_epoch sys (mode_str mode @ ''/metrics/'' @ name) metric) d))"
| "log_metrics sys m mode = (Inl (AttributeError ''items''), [])"

text \<open>
  The optimizer part:
  \<^verbatim>\<open>
  if mode == Mode.TRAIN and batch_idx == 0:
      for name, optimizer_stat in get_optimizer_stats(self.optimizer).items():
          self._log(f"{mode}/{name}", optimizer_stat, on_epoch=True)
  \<close>
\<close>

definition log_optimizer :: "'v system \<Rightarrow> Mode \<Rightarrow> int \<Rightarrow> (error + 'v event) list" where
  "log_optimizer sys mode batch_idx =
     (if mode = TRAIN \<and> batch_idx = 0
      then map (\<lambda>(name, optimizer_stat).
             log_entry sys (mode_str mode @ ''/'' @ name) optimizer_stat False True)
             (get_optimizer_stats sys (optimizer sys))
      else [])"

text \<open>
  \<^verbatim>\<open>System._log_stats\<close>: nothing without a logger; otherwise the loss part, then the
  metrics part, then the optimizer part. An exception in one part ends the method, and
  the records logged before it stay logged.
\<close>

definition log_stats ::
  "'v system \<Rightarrow> 'v pyval \<Rightarrow> 'v pyval \<Rightarrow> Mode \<Rightarrow> int \<Rightarrow> (error + unit) \<times> 'v event list" where
  "log_stats sys loss mtr mode batch_idx =
     (if \<not> logger sys then (Inr (), [])
      else and_then (run_logs (log_loss sys loss mode))
             (and_then (log_metrics sys mtr mode)
                (run_logs (log_optimizer sys mode batch_idx))))"

section \<open>The step\<close>

definition missing_total_message :: string where
  "missing_total_message =
     ''The loss dictionary must include a 'total' key that combines all sublosses. '' @
     ''Example: {'total': combined_loss, 'subloss1': loss1, ...}''"

text \<open>
  Prediction: \<^verbatim>\<open>self.inferer(input, self)\<close> when an inferer is set and the mode is val,
  test or predict, \<^verbatim>\<open>self(input)\<close> otherwise.
\<close>

definition predict_with :: "'v system \<Rightarrow> Mode \<Rightarrow> 'v pyval \<Rightarrow> 'v pyval \<times> 'v event list" where
  "predict_with sys mode inp =
     (case inferer sys of
        Some infer \<Rightarrow>
          (if mode \<in> {VAL, TEST, PREDICT} then (infer inp, [InfererCall inp])
           else forward sys inp)
      | None \<Rightarrow> forward sys inp)"

text \<open>
  \<^verbatim>\<open>loss = None; if mode in [Mode.TRAIN, Mode.VAL]: loss = self.criterion(input=input,
  pred=pred, target=target)\<close>. Calling \<^verbatim>\<open>None\<close> raises a TypeError.
\<close>

definition not_callable_message :: string where
  "not_callable_message = ''NoneType object is not callable''"

definition compute_loss ::
  "'v system \<Rightarrow> Mode \<Rightarrow> 'v pyval \<Rightarrow> 'v pyval \<Rightarrow> 'v pyval \<Rightarrow> (error + 'v pyval) \<times> 'v event list" where
  "compute_loss sys mode inp pred tgt =
     (if mode \<in> {TRAIN, VAL}
      then (case criterion sys of
              None \<Rightarrow> (Inl (TypeError not_callable_message), [])
            | Some c \<Rightarrow> (Inr (c inp pred tgt), [CriterionCall inp pred tgt]))
      else (Inr PyNone, []))"

text \<open>
  \<^verbatim>\<open>metrics = None; if mode in self.metrics and self.metrics[mode] is not None:
  metrics = self.metrics[mode](pred, target)\<close>.
\<close>

definition compute_metrics ::
  "'v system \<Rightarrow> Mode \<Rightarrow> 'v pyval \<Rightarrow> 'v pyval \<Rightarrow> 'v pyval \<times> 'v event list" where
  "compute_metrics sys mode pred tgt =
     (case metrics sys mode of
        Some (Some m) \<Rightarrow> (m pred tgt, [MetricsCall mode pred tgt])
      | _ \<Rightarrow> (PyNone, []))"

text \<open>\<^verbatim>\<open>loss["total"] if isinstance(loss, dict) else loss\<close>.\<close>

fun returned_loss :: "'v pyval \<Rightarrow> error + 'v pyval" where
  "returned_loss (PyDict d) =
     (case map_of d ''total'' of None \<Rightarrow> Inl (KeyError ''total'') | Some v \<Rightarrow> Inr v)"
| "returned_loss loss = Inr loss"

text \<open>\<^verbatim>\<open>isinstance(loss, dict) and "total" not in loss\<close>.\<close>

fun lacks_total :: "'v pyval \<Rightarrow> bool" where
  "lacks_total (PyDict d) = (map_of d ''total'' = None)"
| "lacks_total loss = False"

text \<open>
  \<^verbatim>\<open>System._step\<close>. The result is the returned dictionary or the exception raised,
  together with the events up to that point.
\<close>

definition step ::
  "'v system \<Rightarrow> 'v pydict \<Rightarrow> int \<Rightarrow> Mode \<Rightarrow> (error + 'v pydict) \<times> 'v event list" where
  "step sys batch batch_idx mode =
     (case validate_batch batch of
        Inl e \<Rightarrow> (Inl e, [])
      | Inr b \<Rightarrow>
          (let ident = batch_id b; inp = batch_input b; tgt = batch_target b;
               (pred, ev1) = predict_with sys mode inp
           in if mode = PREDICT then (Inr [(Data_PRED, pred), (Data_ID, ident)], ev1)
              else
                (case compute_loss sys mode inp pred tgt of
                   (Inl e, ev2) \<Rightarrow> (Inl e, ev1 @ ev2)
                 | (Inr loss, ev2) \<Rightarrow>
                     (let (mtr, ev3) = compute_metrics sys mode pred tgt
                      in if lacks_total loss
                         then (Inl (ValueError missing_total_message), ev1 @ ev2 @ ev3)
                         else
                           (case log_stats sys loss mtr mode batch_idx of
                              (Inl e, ev4) \<Rightarrow> (Inl e, ev1 @ ev2 @ ev3 @ ev4)
                            | (Inr u, ev4) \<Rightarrow>
                                (case returned_loss loss of
                                   Inl e \<Rightarrow> (Inl e, ev1 @ ev2 @ ev3 @ ev4)
                                 | Inr l \<Rightarrow>
                                     (Inr [(''loss'', l), (''metrics'', mtr),
                                           (Data_INPUT, inp), (Data_TARGET, tgt),
                                           (Data_PRED, pred), (Data_ID, ident)],
                                      ev1 @ ev2 @ ev3 @ ev4)))))))"

text \<open>The kinds of events the claims speak of.\<close>

fun is_log :: "'v event \<Rightarrow> bool" where
  "is_log (LogCall r) = True"
| "is_log e = False"

fun is_loss_or_metric :: "'v event \<Rightarrow> bool" where
  "is_loss_or_metric (CriterionCall i p t) = True"
| "is_loss_or_metric (MetricsCall m p t) = True"
| "is_loss_or_metric e = False"

section \<open>The learning rate property\<close>

definition multi_group_message :: string where
  "multi_group_message =
     ''The learning rate is not available when there are multiple optimizer parameter groups.''"

text \<open>
  The getter: \<^verbatim>\<open>len(self.optimizer.param_groups) > 1\<close> raises the ValueError, otherwise
  \<^verbatim>\<open>self.optimizer.param_groups[0]["lr"]\<close> is returned. Without an optimizer the
  attribute access fails, without a group the index, without an \<^verbatim>\<open>lr\<close> entry the key.
\<close>

definition learning_rate :: "'v system \<Rightarrow> error + 'v pyval" where
  "learning_rate sys =
     (case optimizer sys of
        None \<Rightarrow> Inl (AttributeError ''param_groups'')
      | Some opt \<Rightarrow>
          (if length (param_groups opt) > 1 then Inl (ValueError multi_group_message)
           else (case param_groups opt of
                   [] \<Rightarrow> Inl (IndexError ''list index out of range'')
                 | g # gs \<Rightarrow>
                     (case map_of g ''lr'' of
                        None \<Rightarrow> Inl (KeyError ''lr'')
                      | Some v \<Rightarrow> Inr v))))"

text \<open>
  The setter: the same check, then \<^verbatim>\<open>self.optimizer.param_groups[0]["lr"] = value\<close>. The
  System after the call is returned beside the outcome; a raise leaves it as it was.
\<close>

definition set_learning_rate :: "'v system \<Rightarrow> 'v pyval \<Rightarrow> (error + unit) \<times> 'v system" where
  "set_learning_rate sys val =
     (case optimizer sys of
        None \<Rightarrow> (Inl (AttributeError ''param_groups''), sys)
      | Some opt \<Rightarrow>
          (if length (param_groups opt) > 1 then (Inl (ValueError multi_group_message), sys)
           else (case param_groups opt of
                   [] \<Rightarrow> (Inl (IndexError ''list index out of range''), sys)
                 | g # gs \<Rightarrow>
                     (Inr (),
                      sys\<lparr>optimizer :=
                            Some (opt\<lparr>param_groups := AList.update ''lr'' val g # gs\<rparr>)\<rparr>))))"

section \<open>Command line: running a Trainer method\<close>

text \<open>
  What \<^verbatim>\<open>run_trainer_method\<close> does to the outside: \<^verbatim>\<open>logger.error\<close>,
  \<^verbatim>\<open>import_module_from_path("project", path)\<close> and \<^verbatim>\<open>monai.bundle.run(name, ...)\<close>.
\<close>

datatype 'c cli_event =
    LoggerError string
  | ImportModule string 'c
  | Run string

datatype cli_outcome = Returned | Exited | Raised error

text \<open>The keys of the table \<^verbatim>\<open>trainer_methods\<close>.\<close>

definition trainer_methods :: "string list" where
  "trainer_methods = [''fit'', ''validate'', ''predict'', ''test'', ''tune'']"

text \<open>
  The loop over the config files. \<open>load\<close> stands for \<^verbatim>\<open>yaml.safe_load(open(config))\<close>
  and gives the mapping a file holds. The flag is \<^verbatim>\<open>project_imported\<close>; the result says
  whether \<^verbatim>\<open>sys.exit()\<close> was reached.
\<close>

fun import_projects ::
  "(string \<Rightarrow> (string \<times> 'c) list) \<Rightarrow> string list \<Rightarrow> bool \<Rightarrow> bool \<times> 'c cli_event list" where
  "import_projects load [] project_imported = (False, [])"
| "import_projects load (config # configs) project_imported =
     (case map_of (load config) ''project'' of
        None \<Rightarrow> import_projects load configs project_imported
      | Some path \<Rightarrow>
          (if project_imported
           then (True, [LoggerError ''`project` must be specified in one config only.''])
           else (let (exited, evs) = import_projects load configs True
                 in (exited, ImportModule ''project'' path # evs))))"

text \<open>
  \<^verbatim>\<open>run_trainer_method(name, **kwargs)\<close>. \<open>config_file\<close> is
  \<^verbatim>\<open>ensure_tuple(kwargs["config_file"])\<close> when the key is given, \<open>None\<close> otherwise.
  \<^verbatim>\<open>trainer_methods[name]\<close> raises a KeyError for a name outside the table.
\<close>

definition run_trainer_method ::
  "(string \<Rightarrow> (string \<times> 'c) list) \<Rightarrow> string \<Rightarrow> string list option
     \<Rightarrow> cli_outcome \<times> 'c cli_event list" where
  "run_trainer_method load name config_file =
     (let (exited, evs) =
            (case config_file of
               None \<Rightarrow> (False, [])
             | Some configs \<Rightarrow> import_projects load configs False)
      in if exited then (Exited, evs)
         else if name \<in> set trainer_methods then (Returned, evs @ [Run name])
         else (Raised (KeyError name), evs))"

text \<open>A config file declares a project when its mapping has the key.\<close>

definition declares_project :: "(string \<Rightarrow> (string \<times> 'c) list) \<Rightarrow> string \<Rightarrow> bool" where
  "declares_project load config = (map_of (load config) ''project'' \<noteq> None)"

fun is_logger_error :: "'c cli_event \<Rightarrow> bool" where
  "is_logger_error (LoggerError m) = True"
| "is_logger_error e = False"

fun is_import :: "'c cli_event \<Rightarrow> bool" where
  "is_import (ImportModule n p) = True"
| "is_import e = False"

fun is_run :: "'c cli_event \<Rightarrow> bool" where
  "is_run (Run n) = True"
| "is_run e = False"

section \<open>A small System for concrete runs\<close>

text \<open>
  A System over integer tensors as the constructor builds it, with the identity as model,
  no optimizer, no criterion, no metrics and no inferer, on an engine without a logger.
  Concrete runs of the step update the fields they need.
\<close>

definition example_system :: "int system" where
  "example_system =
     System_init (\<lambda>x epoch stp. x) None None (\<lambda>mode. None) None
       (\<lambda>a. False) 0 0 (\<lambda>opt. []) False"

section \<open>Properties of batch validation\<close>

lemma Batch_init_unexpected:
  assumes "\<not> fst ` set kwargs \<subseteq> {''id'', ''input'', ''target''}"
  shows "\<exists>m. Batch_init kwargs = Inl (TypeError m)"
proof -
  from assms obtain k where "k \<in> fst ` set kwargs" "k \<notin> set Batch_fields"
    by (auto simp: Batch_fields_def)
  then have "filter (\<lambda>k. k \<notin> set Batch_fields) (map fst kwargs) \<noteq> []"
    by (auto simp: filter_empty_conv)
  then show ?thesis
    by (auto simp: Batch_init_def split: list.splits)
qed

lemma Batch_init_missing:
  assumes "''input'' \<notin> fst ` set kwargs"
  shows "\<exists>m. Batch_init kwargs = Inl (TypeError m)"
proof -
  from assms have "map_of kwargs ''input'' = None"
    by (simp add: map_of_eq_None_iff)
  then show ?thesis
    by (auto simp: Batch_init_def split: list.splits)
qed

lemma Batch_init_ok:
  assumes "fst ` set kwargs \<subseteq> {''id'', ''input'', ''target''}" and "''input'' \<in> fst ` set kwargs"
  shows "\<exists>x. map_of kwargs ''input'' = Some x \<and> Batch_init kwargs =
     Inr \<lparr>batch_id = dict_get kwargs ''id'', batch_input = x, batch_target = dict_get kwargs ''target''\<rparr>"
proof -
  from assms(2) obtain x where x: "map_of kwargs ''input'' = Some x"
    by (metis map_of_eq_None_iff not_None_eq)
  from assms(1) have "filter (\<lambda>k. k \<notin> set Batch_fields) (map fst kwargs) = []"
    by (auto simp: filter_empty_conv Batch_fields_def)
  with x show ?thesis by (simp add: Batch_init_def)
qed

lemma reraise_invalid: "is_invalid_batch_error (reraise_batch_error (TypeError m))"
  by (simp add: reraise_batch_error_def)

lemma validate_batch_fails:
  assumes "''input'' \<notin> fst ` set batch \<or> \<not> fst ` set batch \<subseteq> {''id'', ''input'', ''target''}"
  shows "\<exists>e. validate_batch batch = Inl e \<and> is_invalid_batch_error e"
proof -
  from assms obtain m where "Batch_init batch = Inl (TypeError m)"
    using Batch_init_missing Batch_init_unexpected by blast
  then show ?thesis by (simp add: validate_batch_def reraise_invalid)
qed

lemma Batch_roundtrip:
  assumes "fst ` set kwargs \<subseteq> {''id'', ''input'', ''target''}" and "map_of kwargs ''input'' = Some x"
  shows "dict_get (Batch_as_dict \<lparr>batch_id = dict_get kwargs ''id'', batch_input = x, batch_target = dict_get kwargs ''target''\<rparr>) k = dict_get kwargs k"
proof (cases "k \<in> {''id'', ''input'', ''target''}")
  case True
  then show ?thesis using assms(2) by (auto simp: dict_get_def Batch_as_dict_def)
next
  case False
  with assms(1) have "k \<notin> fst ` set kwargs" by blast
  then have "map_of kwargs k = None" by (simp add: map_of_eq_None_iff)
  with False show ?thesis by (auto simp: dict_get_def Batch_as_dict_def)
qed

lemma validate_batch_ok:
  assumes "fst ` set batch \<subseteq> {''id'', ''input'', ''target''}" and "''input'' \<in> fst ` set batch"
  shows "\<exists>b. validate_batch batch = Inr b \<and> (\<forall>k. dict_get (Batch_as_dict b) k = dict_get batch k)"
proof -
  from Batch_init_ok [OF assms] obtain x where x: "map_of batch ''input'' = Some x"
    and b: "Batch_init batch = Inr \<lparr>batch_id = dict_get batch ''id'', batch_input = x, batch_target = dict_get batch ''target''\<rparr>"
    by blast
  show ?thesis
    using b Batch_roundtrip [OF assms(1) x] by (simp add: validate_batch_def)
qed

text \<open>
  C2: a raw batch that lacks the key input, or that has a key other than id, input and
  target, is rejected with the error whose message names the allowed schema (input,
  target, id). A raw batch whose keys are exactly input, or input and target, or input and
  id, or all three, is accepted, and the structured batch holds under every key what the
  raw batch holds there (\<^verbatim>\<open>None\<close> for an absent key).
\<close>

theorem validate_batch_schema:
  "(''input'' \<notin> fst ` set batch \<or> \<not> fst ` set batch \<subseteq> {''id'', ''input'', ''target''}
       \<longrightarrow> (\<exists>e. validate_batch batch = Inl e \<and> is_invalid_batch_error e))
   \<and> (fst ` set batch \<in> {{''input''}, {''input'', ''target''}, {''input'', ''id''},
                            {''input'', ''target'', ''id''}}
       \<longrightarrow> (\<exists>b. validate_batch batch = Inr b
               \<and> (\<forall>k. dict_get (Batch_as_dict b) k = dict_get batch k)))
   \<and> sublist ''input'' batch_schema_message
   \<and> sublist ''target'' batch_schema_message
   \<and> sublist ''id'' batch_schema_message"
proof (intro conjI impI)
  assume "''input'' \<notin> fst ` set batch \<or> \<not> fst ` set batch \<subseteq> {''id'', ''input'', ''target''}"
  then show "\<exists>e. validate_batch batch = Inl e \<and> is_invalid_batch_error e"
    by (rule validate_batch_fails)
next
  assume a: "fst ` set batch \<in> {{''input''}, {''input'', ''target''}, {''input'', ''id''},
                            {''input'', ''target'', ''id''}}"
  then have "fst ` set batch \<subseteq> {''id'', ''input'', ''target''}" "''input'' \<in> fst ` set batch"
    by auto
  then show "\<exists>b. validate_batch batch = Inr b
               \<and> (\<forall>k. dict_get (Batch_as_dict b) k = dict_get batch k)"
    by (rule validate_batch_ok)
next
  show "sublist ''input'' batch_schema_message" unfolding batch_schema_message_def by code_simp
  show "sublist ''target'' batch_schema_message" unfolding batch_schema_message_def by code_simp
  show "sublist ''id'' batch_schema_message" unfolding batch_schema_message_def by code_simp
qed

theorem validate_batch_schema_witness:
  "(\<exists>e. validate_batch [(''target'', Tensor (1::int)), (''label'', Tensor 2)] = Inl e \<and> is_invalid_batch_error e)
   \<and> (\<exists>b. validate_batch [(''input'', Tensor (1::int)), (''id'', Tensor 7)] = Inr b
         \<and> (\<forall>k. dict_get (Batch_as_dict b) k = dict_get [(''input'', Tensor 1), (''id'', Tensor 7)] k))"
proof (rule conjI)
  have 1: "''input'' \<notin> fst ` set [(''target'', Tensor (1::int)), (''label'', Tensor 2)]"
    by simp
  show "\<exists>e. validate_batch [(''target'', Tensor (1::int)), (''label'', Tensor 2)] = Inl e \<and> is_invalid_batch_error e"
    by (rule validate_batch_schema [THEN conjunct1, THEN mp, OF disjI1, OF 1])
next
  have "fst ` set [(''input'', Tensor (1::int)), (''id'', Tensor 7)] = {''input'', ''id''}"
    by (simp add: insert_commute)
  then have 2: "fst ` set [(''input'', Tensor (1::int)), (''id'', Tensor 7)]
      \<in> {{''input''}, {''input'', ''target''}, {''input'', ''id''}, {''input'', ''target'', ''id''}}"
    by (simp only: insert_iff simp_thms)
  show "\<exists>b. validate_batch [(''input'', Tensor (1::int)), (''id'', Tensor 7)] = Inr b
         \<and> (\<forall>k. dict_get (Batch_as_dict b) k = dict_get [(''input'', Tensor 1), (''id'', Tensor 7)] k)"
    by (rule validate_batch_schema [THEN conjunct2, THEN conjunct1, THEN mp, OF 2])
qed

section \<open>Properties of the step\<close>

lemma predict_with_events:
  "e \<in> set (snd (predict_with sys mode inp)) \<Longrightarrow> \<not> is_log e \<and> \<not> is_loss_or_metric e"
  by (auto simp: predict_with_def forward_def Let_def split: option.splits if_splits)

lemma compute_metrics_events:
  "e \<in> set (snd (compute_metrics sys mode pred tgt)) \<Longrightarrow> \<not> is_log e"
  by (auto simp: compute_metrics_def split: option.splits)

lemma compute_loss_events:
  "e \<in> set (snd (compute_loss sys mode inp pred tgt)) \<Longrightarrow> \<not> is_log e"
  by (auto simp: compute_loss_def split: option.splits if_splits)

lemma step_invalid:
  "validate_batch batch = Inl e \<Longrightarrow> step sys batch batch_idx mode = (Inl e, [])"
  by (simp add: step_def)

lemma step_predict:
  "validate_batch batch = Inr b \<Longrightarrow>
   step sys batch batch_idx PREDICT =
     (Inr [(''pred'', fst (predict_with sys PREDICT (batch_input b))), (''id'', batch_id b)],
      snd (predict_with sys PREDICT (batch_input b)))"
  by (simp add: step_def Data_PRED_def Data_ID_def split: prod.splits)

lemma step_criterion_None:
  "validate_batch batch = Inr b \<Longrightarrow> mode = TRAIN \<or> mode = VAL \<Longrightarrow> criterion sys = None \<Longrightarrow>
   step sys batch batch_idx mode =
     (Inl (TypeError not_callable_message), snd (predict_with sys mode (batch_input b)))"
  by (auto simp: step_def compute_loss_def Let_def split: prod.splits)

lemma step_lacks_total:
  "validate_batch batch = Inr b \<Longrightarrow> mode = TRAIN \<or> mode = VAL \<Longrightarrow> criterion sys = Some c \<Longrightarrow>
   lacks_total (c (batch_input b) (fst (predict_with sys mode (batch_input b))) (batch_target b)) \<Longrightarrow>
   step sys batch batch_idx mode =
     (Inl (ValueError missing_total_message),
      snd (predict_with sys mode (batch_input b))
      @ [CriterionCall (batch_input b) (fst (predict_with sys mode (batch_input b))) (batch_target b)]
      @ snd (compute_metrics sys mode (fst (predict_with sys mode (batch_input b))) (batch_target b)))"
  by (auto simp: step_def compute_loss_def Let_def split: prod.splits)

lemma step_returns:
  "step sys batch batch_idx mode = (Inr r, evs) \<Longrightarrow> mode \<noteq> PREDICT \<Longrightarrow>
   \<exists>b loss. validate_batch batch = Inr b
     \<and> fst (compute_loss sys mode (batch_input b) (fst (predict_with sys mode (batch_input b))) (batch_target b)) = Inr loss
     \<and> \<not> lacks_total loss
     \<and> (\<exists>l. returned_loss loss = Inr l \<and> map_of r ''loss'' = Some l)"
  by (auto simp: step_def Let_def split: prod.splits sum.splits if_splits)

lemma step_criterion_called:
  "validate_batch batch = Inr b \<Longrightarrow> mode = TRAIN \<or> mode = VAL \<Longrightarrow> criterion sys = Some c \<Longrightarrow>
   CriterionCall (batch_input b) (fst (predict_with sys mode (batch_input b))) (batch_target b)
     \<in> set (snd (step sys batch batch_idx mode))"
  by (auto simp: step_def compute_loss_def Let_def split: prod.splits sum.splits)

lemma validate_input_target:
  "validate_batch [(''input'', x), (''target'', y)]
     = Inr \<lparr>batch_id = PyNone, batch_input = x, batch_target = y\<rparr>"
  by (simp add: validate_batch_def Batch_init_def Batch_fields_def dict_get_def)

lemma returned_loss_dict:
  "returned_loss (PyDict d) = Inr l \<Longrightarrow> map_of d ''total'' = Some l"
  by (simp split: option.splits)

lemma returned_loss_not_dict: "\<not> is_dict loss \<Longrightarrow> returned_loss loss = Inr loss"
  by (cases loss) simp_all

lemmas step_eval =
  step_def validate_input_target predict_with_def forward_def compute_loss_def
  compute_metrics_def log_stats_def example_system_def System_init_def Let_def
  Data_INPUT_def Data_TARGET_def Data_PRED_def Data_ID_def

text \<open>
  C1: a step in predict mode returns the dictionary with exactly the two entries pred and
  id, whatever the batch holds as target; when the batch is rejected nothing is returned.
  The step calls neither the criterion nor the metrics and logs nothing.
\<close>

theorem predict_step_pred_and_id:
  "(\<forall>b. validate_batch batch = Inr b \<longrightarrow>
        fst (step sys batch batch_idx PREDICT) =
          Inr [(''pred'', fst (predict_with sys PREDICT (batch_input b))), (''id'', batch_id b)])
   \<and> (\<forall>r. fst (step sys batch batch_idx PREDICT) = Inr r \<longrightarrow> map fst r = [''pred'', ''id''])
   \<and> (\<forall>e \<in> set (snd (step sys batch batch_idx PREDICT)). \<not> is_log e \<and> \<not> is_loss_or_metric e)"
proof (cases "validate_batch batch")
  case (Inl e)
  then show ?thesis by (simp add: step_invalid)
next
  case (Inr b)
  then show ?thesis using predict_with_events [of _ sys PREDICT "batch_input b"]
    by (auto simp: step_predict)
qed

theorem predict_step_pred_and_id_witness:
  "validate_batch [(''input'', Tensor (5::int))]
     = Inr \<lparr>batch_id = PyNone, batch_input = Tensor 5, batch_target = PyNone\<rparr>
   \<and> fst (step example_system [(''input'', Tensor 5)] 0 PREDICT)
     = Inr [(''pred'', Tensor 5), (''id'', PyNone)]
   \<and> map fst [(''pred'', Tensor (5::int)), (''id'', PyNone)] = [''pred'', ''id'']
   \<and> snd (step example_system [(''input'', Tensor 5)] 0 PREDICT) = [ModelCall (Tensor 5) None None]
   \<and> \<not> is_log (ModelCall (Tensor (5::int)) None None)
   \<and> \<not> is_loss_or_metric (ModelCall (Tensor (5::int)) None None)"
proof -
  have v: "validate_batch [(''input'', Tensor (5::int))]
             = Inr \<lparr>batch_id = PyNone, batch_input = Tensor 5, batch_target = PyNone\<rparr>"
    by (simp add: validate_batch_def Batch_init_def Batch_fields_def dict_get_def)
  have p: "predict_with example_system PREDICT (Tensor 5) = (Tensor 5, [ModelCall (Tensor 5) None None])"
    by (simp add: predict_with_def forward_def example_system_def System_init_def)
  note t = predict_step_pred_and_id [of "[(''input'', Tensor 5)]" example_system 0]
  have f: "fst (step example_system [(''input'', Tensor 5)] 0 PREDICT)
             = Inr [(''pred'', Tensor 5), (''id'', PyNone)]"
    using t [THEN conjunct1, rule_format, OF v] by (simp add: p)
  have s: "snd (step example_system [(''input'', Tensor 5)] 0 PREDICT) = [ModelCall (Tensor 5) None None]"
    by (simp add: step_predict [OF v] p)
  have e: "\<not> is_log (ModelCall (Tensor (5::int)) None None)
            \<and> \<not> is_loss_or_metric (ModelCall (Tensor (5::int)) None None)"
    using t [THEN conjunct2, THEN conjunct2, rule_format, of "ModelCall (Tensor 5) None None"]
    by (simp add: s)
  from v f s e show ?thesis by simp
qed

text \<open>
  C3: in train or val mode, when the criterion returns a mapping without the key total,
  the step raises the ValueError whose message names that key, and up to the raise no log
  record has been emitted.
\<close>

theorem missing_total_raises_before_logging:
  assumes "validate_batch batch = Inr b"
    and "mode = TRAIN \<or> mode = VAL"
    and "criterion sys = Some c"
    and "c (batch_input b) (fst (predict_with sys mode (batch_input b))) (batch_target b) = PyDict d"
    and "''total'' \<notin> fst ` set d"
  shows "fst (step sys batch batch_idx mode) = Inl (ValueError missing_total_message)
     \<and> (\<forall>e \<in> set (snd (step sys batch batch_idx mode)). \<not> is_log e)
     \<and> sublist ''total'' missing_total_message"
proof -
  have l: "lacks_total (c (batch_input b) (fst (predict_with sys mode (batch_input b))) (batch_target b))"
    using assms(4,5) by (simp add: map_of_eq_None_iff)
  note s = step_lacks_total [OF assms(1,2,3) l, of batch_idx]
  have 1: "fst (step sys batch batch_idx mode) = Inl (ValueError missing_total_message)"
    by (simp add: s)
  have 2: "\<forall>e \<in> set (snd (step sys batch batch_idx mode)). \<not> is_log e"
    using predict_with_events [of _ sys mode "batch_input b"]
      compute_metrics_events [of _ sys mode "fst (predict_with sys mode (batch_input b))" "batch_target b"]
    by (auto simp: s)
  have 3: "sublist ''total'' missing_total_message"
    unfolding missing_total_message_def by code_simp
  from 1 2 3 show ?thesis by blast
qed


theorem missing_total_raises_before_logging_witness:
  "fst (step (example_system\<lparr>criterion := Some (\<lambda>i p t. PyDict [(''aux'', Tensor 2)])\<rparr>)
          [(''input'', Tensor 1), (''target'', Tensor 0)] 0 TRAIN)
     = Inl (ValueError missing_total_message)"
proof -
  let ?sys = "example_system\<lparr>criterion := Some (\<lambda>i p t. PyDict [(''aux'', Tensor 2)])\<rparr>"
  have c: "criterion ?sys = Some (\<lambda>i p t. PyDict [(''aux'', Tensor 2)])"
    by simp
  have m: "TRAIN = TRAIN \<or> TRAIN = VAL" by simp
  have d: "(\<lambda>i p t. PyDict [(''aux'', Tensor (2::int))])
             (batch_input \<lparr>batch_id = PyNone, batch_input = Tensor 1, batch_target = Tensor 0\<rparr>)
             (fst (predict_with ?sys TRAIN
                (batch_input \<lparr>batch_id = PyNone, batch_input = Tensor 1, batch_target = Tensor 0\<rparr>)))
             (batch_target \<lparr>batch_id = PyNone, batch_input = Tensor 1, batch_target = Tensor 0\<rparr>)
           = PyDict [(''aux'', Tensor 2)]"
    by simp
  have n: "''total'' \<notin> fst ` set [(''aux'', Tensor (2::int))]" by simp
  from missing_total_raises_before_logging [OF validate_input_target m c d n, where batch_idx = 0]
  show ?thesis by (rule conjunct1)
qed

text \<open>
  C4: when a step outside predict mode returns, the entry loss of the result is
  \<^verbatim>\<open>None\<close> in test mode; in train and val mode it is the entry total of the loss when the
  criterion returned a mapping (which then has that key), and the loss itself when the
  criterion returned anything else.
\<close>

theorem step_result_loss:
  assumes "step sys batch batch_idx mode = (Inr r, evs)" and "mode \<noteq> PREDICT"
  shows "\<exists>b. validate_batch batch = Inr b
     \<and> (mode = TEST \<longrightarrow> map_of r ''loss'' = Some PyNone)
     \<and> (mode \<noteq> TEST \<longrightarrow>
          (\<exists>c. criterion sys = Some c
             \<and> (\<forall>d. c (batch_input b) (fst (predict_with sys mode (batch_input b))) (batch_target b)
                       = PyDict d
                    \<longrightarrow> map_of d ''total'' \<noteq> None \<and> map_of r ''loss'' = map_of d ''total'')
             \<and> (\<not> is_dict (c (batch_input b) (fst (predict_with sys mode (batch_input b)))
                               (batch_target b))
                    \<longrightarrow> map_of r ''loss''
                        = Some (c (batch_input b) (fst (predict_with sys mode (batch_input b)))
                                  (batch_target b)))))"
proof -
  from step_returns [OF assms] obtain b loss l where
    v: "validate_batch batch = Inr b"
    and cl: "fst (compute_loss sys mode (batch_input b)
                  (fst (predict_with sys mode (batch_input b))) (batch_target b)) = Inr loss"
    and rl: "returned_loss loss = Inr l" and r: "map_of r ''loss'' = Some l"
    by blast
  have test: "mode = TEST \<longrightarrow> map_of r ''loss'' = Some PyNone"
    using cl rl r by (auto simp: compute_loss_def)
  have other: "mode \<noteq> TEST \<longrightarrow>
          (\<exists>c. criterion sys = Some c
             \<and> (\<forall>d. c (batch_input b) (fst (predict_with sys mode (batch_input b))) (batch_target b)
                       = PyDict d
                    \<longrightarrow> map_of d ''total'' \<noteq> None \<and> map_of r ''loss'' = map_of d ''total'')
             \<and> (\<not> is_dict (c (batch_input b) (fst (predict_with sys mode (batch_input b)))
                               (batch_target b))
                    \<longrightarrow> map_of r ''loss''
                        = Some (c (batch_input b) (fst (predict_with sys mode (batch_input b)))
                                  (batch_target b))))"
  proof
    assume nt: "mode \<noteq> TEST"
    with assms(2) have tv: "mode = TRAIN \<or> mode = VAL" by (cases mode) simp_all
    with cl obtain c where c: "criterion sys = Some c"
      and lo: "loss = c (batch_input b) (fst (predict_with sys mode (batch_input b))) (batch_target b)"
      by (auto simp: compute_loss_def split: option.splits)
    have "\<forall>d. loss = PyDict d \<longrightarrow> map_of d ''total'' \<noteq> None \<and> map_of r ''loss'' = map_of d ''total''"
      using rl r returned_loss_dict by fastforce
    moreover have "\<not> is_dict loss \<longrightarrow> map_of r ''loss'' = Some loss"
      using rl r returned_loss_not_dict by fastforce
    ultimately show "\<exists>c. criterion sys = Some c
             \<and> (\<forall>d. c (batch_input b) (fst (predict_with sys mode (batch_input b))) (batch_target b)
                       = PyDict d
                    \<longrightarrow> map_of d ''total'' \<noteq> None \<and> map_of r ''loss'' = map_of d ''total'')
             \<and> (\<not> is_dict (c (batch_input b) (fst (predict_with sys mode (batch_input b)))
                               (batch_target b))
                    \<longrightarrow> map_of r ''loss''
                        = Some (c (batch_input b) (fst (predict_with sys mode (batch_input b)))
                                  (batch_target b)))"
      using c lo by simp
  qed
  from v test other show ?thesis by blast
qed

theorem step_result_loss_witness:
  "step (example_system\<lparr>criterion := Some (\<lambda>i p t. PyDict [(''total'', Tensor 5), (''aux'', Tensor 2)])\<rparr>)
        [(''input'', Tensor 1), (''target'', Tensor 0)] 0 TRAIN
     = (Inr [(''loss'', Tensor 5), (''metrics'', PyNone), (''input'', Tensor 1),
             (''target'', Tensor 0), (''pred'', Tensor 1), (''id'', PyNone)],
        [ModelCall (Tensor 1) None None, CriterionCall (Tensor 1) (Tensor 1) (Tensor 0)])
   \<and> step example_system [(''input'', Tensor 1), (''target'', Tensor 0)] 0 TEST
     = (Inr [(''loss'', PyNone), (''metrics'', PyNone), (''input'', Tensor 1),
             (''target'', Tensor 0), (''pred'', Tensor 1), (''id'', PyNone)],
        [ModelCall (Tensor 1) None None])
   \<and> TRAIN \<noteq> PREDICT \<and> TEST \<noteq> PREDICT
   \<and> map_of [(''loss'', Tensor (5::int)), (''metrics'', PyNone), (''input'', Tensor 1),
              (''target'', Tensor 0), (''pred'', Tensor 1), (''id'', PyNone)] ''loss''
     = Some (Tensor 5)
   \<and> map_of [(''loss'', PyNone), (''metrics'', PyNone), (''input'', Tensor (1::int)),
              (''target'', Tensor 0), (''pred'', Tensor 1), (''id'', PyNone)] ''loss''
     = Some PyNone"
proof -
  let ?sys = "example_system\<lparr>criterion := Some (\<lambda>i p t. PyDict [(''total'', Tensor 5), (''aux'', Tensor 2)])\<rparr>"
  let ?r = "[(''loss'', Tensor 5), (''metrics'', PyNone), (''input'', Tensor 1),
             (''target'', Tensor 0), (''pred'', Tensor 1), (''id'', PyNone)] :: int pydict"
  let ?rt = "[(''loss'', PyNone), (''metrics'', PyNone), (''input'', Tensor 1),
             (''target'', Tensor 0), (''pred'', Tensor 1), (''id'', PyNone)] :: int pydict"
  have a: "step ?sys [(''input'', Tensor 1), (''target'', Tensor 0)] 0 TRAIN
     = (Inr ?r, [ModelCall (Tensor 1) None None, CriterionCall (Tensor 1) (Tensor 1) (Tensor 0)])"
    by (simp add: step_eval)
  have b: "step example_system [(''input'', Tensor 1), (''target'', Tensor 0)] 0 TEST
     = (Inr ?rt, [ModelCall (Tensor 1) None None])"
    by (simp add: step_eval)
  have 1: "TRAIN \<noteq> PREDICT" and 2: "TEST \<noteq> PREDICT" by simp_all
  from step_result_loss [OF a 1] have "map_of ?r ''loss'' = Some (Tensor 5)"
    by (auto simp: validate_input_target)
  moreover from step_result_loss [OF b 2] have "map_of ?rt ''loss'' = Some PyNone"
    by blast
  ultimately show ?thesis using a b by simp
qed

text \<open>
  C10: in train and val mode the criterion is called on input, pred and target whenever
  there is one; with \<^verbatim>\<open>criterion = None\<close> every such step raises, and for an accepted
  batch the error is the TypeError of calling \<^verbatim>\<open>None\<close>, raised right after the
  prediction. No step result with a null loss is returned.
\<close>

theorem criterion_always_called:
  assumes "mode = TRAIN \<or> mode = VAL"
  shows "(criterion sys = None \<longrightarrow> (\<exists>e. fst (step sys batch batch_idx mode) = Inl e))
     \<and> (\<forall>b. validate_batch batch = Inr b \<and> criterion sys = None \<longrightarrow>
            step sys batch batch_idx mode =
              (Inl (TypeError not_callable_message), snd (predict_with sys mode (batch_input b))))
     \<and> (\<forall>b c. validate_batch batch = Inr b \<and> criterion sys = Some c \<longrightarrow>
            CriterionCall (batch_input b) (fst (predict_with sys mode (batch_input b))) (batch_target b)
              \<in> set (snd (step sys batch batch_idx mode)))"
proof (intro conjI impI allI)
  assume n: "criterion sys = None"
  show "\<exists>e. fst (step sys batch batch_idx mode) = Inl e"
  proof (cases "validate_batch batch")
    case (Inl e)
    then show ?thesis by (simp add: step_invalid)
  next
    case (Inr b)
    then show ?thesis using step_criterion_None [OF Inr assms n] by simp
  qed
next
  fix b assume "validate_batch batch = Inr b \<and> criterion sys = None"
  then show "step sys batch batch_idx mode =
              (Inl (TypeError not_callable_message), snd (predict_with sys mode (batch_input b)))"
    using step_criterion_None assms by blast
next
  fix b c assume "validate_batch batch = Inr b \<and> criterion sys = Some c"
  then show "CriterionCall (batch_input b) (fst (predict_with sys mode (batch_input b))) (batch_target b)
              \<in> set (snd (step sys batch batch_idx mode))"
    using step_criterion_called assms by blast
qed

theorem criterion_always_called_witness:
  "step example_system [(''input'', Tensor 1), (''target'', Tensor 0)] 0 TRAIN
     = (Inl (TypeError not_callable_message), [ModelCall (Tensor 1) None None])
   \<and> CriterionCall (Tensor 1) (Tensor 1) (Tensor 0)
       \<in> set (snd (step (example_system\<lparr>criterion := Some (\<lambda>i p t. Tensor 3)\<rparr>)
                        [(''input'', Tensor 1), (''target'', Tensor 0)] 0 VAL))"
proof -
  let ?b = "\<lparr>batch_id = PyNone, batch_input = Tensor (1::int), batch_target = Tensor 0\<rparr>"
  let ?sys = "example_system\<lparr>criterion := Some (\<lambda>i p t. Tensor 3)\<rparr>"
  have m1: "TRAIN = TRAIN \<or> TRAIN = VAL" and m2: "VAL = TRAIN \<or> VAL = VAL" by simp_all
  have n: "validate_batch [(''input'', Tensor 1), (''target'', Tensor 0)] = Inr ?b
             \<and> criterion example_system = None"
    by (simp add: validate_input_target example_system_def System_init_def)
  have p: "predict_with example_system TRAIN (Tensor 1) = (Tensor 1, [ModelCall (Tensor 1) None None])"
    by (simp add: predict_with_def forward_def example_system_def System_init_def)
  have s: "validate_batch [(''input'', Tensor 1), (''target'', Tensor 0)] = Inr ?b
             \<and> criterion ?sys = Some (\<lambda>i p t. Tensor 3)"
    by (simp add: validate_input_target)
  have q: "predict_with ?sys VAL (Tensor 1) = (Tensor 1, [ModelCall (Tensor 1) None None])"
    by (simp add: predict_with_def forward_def example_system_def System_init_def)
  from criterion_always_called [OF m1, THEN conjunct2, THEN conjunct1, rule_format, OF n, of 0]
  have 1: "step example_system [(''input'', Tensor 1), (''target'', Tensor 0)] 0 TRAIN
     = (Inl (TypeError not_callable_message), [ModelCall (Tensor 1) None None])"
    by (simp add: p)
  from criterion_always_called [OF m2, THEN conjunct2, THEN conjunct2, rule_format, OF s, of 0]
  have 2: "CriterionCall (Tensor 1) (Tensor 1) (Tensor 0)
       \<in> set (snd (step ?sys [(''input'', Tensor 1), (''target'', Tensor 0)] 0 VAL))"
    by (simp add: q)
  from 1 2 show ?thesis by simp
qed

section \<open>Properties of the stats logger\<close>

lemma log_entry_unset:
  "batch_size sys = None \<Longrightarrow> log_entry sys name val on_step on_epoch = Inl (AttributeError ''batch_size'')"
  by (simp add: log_entry_def)

lemma run_logs_step_epoch_unset:
  "batch_size sys = None \<Longrightarrow>
   run_logs (log_step_epoch sys pre val @ calls) = (Inl (AttributeError ''batch_size''), [])"
  by (simp add: log_step_epoch_def log_entry_unset)

lemma batch_size_System_init:
  "batch_size (System_init mdl opt crit mtr infr hasarg epoch gstep stats lg) = None"
  by (simp add: System_init_def)

lemma logger_System_init:
  "logger (System_init mdl opt crit mtr infr hasarg epoch gstep stats lg) = lg"
  by (simp add: System_init_def)

lemma and_then_raise: "and_then (Inl e, evs) q = (Inl e, evs)"
  by (simp add: and_then_def)

lemma and_then_return: "and_then (Inr (), evs) q = (fst q, evs @ snd q)"
  by (simp add: and_then_def)

lemma log_stats_loss_raises:
  "logger sys \<Longrightarrow> run_logs (log_loss sys loss mode) = (Inl e, evs) \<Longrightarrow>
   log_stats sys loss m mode batch_idx = (Inl e, evs)"
  by (simp only: log_stats_def and_then_raise not_True_eq_False if_False simp_thms)

lemma log_stats_metrics_raises:
  "logger sys \<Longrightarrow> run_logs (log_loss sys loss mode) = (Inr (), evs) \<Longrightarrow>
   log_metrics sys m mode = (Inl e, evs') \<Longrightarrow>
   log_stats sys loss m mode batch_idx = (Inl e, evs @ evs')"
  by (simp only: log_stats_def and_then_raise and_then_return fst_conv snd_conv
        not_True_eq_False if_False simp_thms)

lemma log_stats_optimizer_raises:
  "logger sys \<Longrightarrow> run_logs (log_loss sys loss mode) = (Inr (), evs) \<Longrightarrow>
   log_metrics sys m mode = (Inr (), evs') \<Longrightarrow>
   run_logs (log_optimizer sys mode batch_idx) = (Inl e, evs'') \<Longrightarrow>
   log_stats sys loss m mode batch_idx = (Inl e, evs @ evs' @ evs'')"
  by (simp only: log_stats_def and_then_raise and_then_return fst_conv snd_conv
        not_True_eq_False if_False simp_thms)

text \<open>
  C5: on a System as the constructor builds it, with a logger, the stats logger emits no
  record. For a scalar loss, for a mapping loss with a sub-loss and for a metrics mapping
  with a metric, the first call of \<^verbatim>\<open>_log\<close> raises the AttributeError of the attribute
  \<^verbatim>\<open>batch_size\<close>, which the constructor never sets. The step and epoch records that the
  method is written to log under \<^verbatim>\<open>{mode}/loss/...\<close> and \<^verbatim>\<open>{mode}/metrics/...\<close>
  are not emitted.
\<close>

theorem log_stats_records_not_emitted:
  "log_stats (System_init mdl opt crit mtr infr hasarg epoch gstep stats True)
       (Tensor v) m mode batch_idx
     = (Inl (AttributeError ''batch_size''), [])
   \<and> log_stats (System_init mdl opt crit mtr infr hasarg epoch gstep stats True)
       (PyDict ((name, subloss) # d)) m mode batch_idx
     = (Inl (AttributeError ''batch_size''), [])
   \<and> log_stats (System_init mdl opt crit mtr infr hasarg epoch gstep stats True)
       PyNone (PyDict ((name, metric) # ms)) mode batch_idx
     = (Inl (AttributeError ''batch_size''), [])"
proof (intro conjI)
  let ?sys = "System_init mdl opt crit mtr infr hasarg epoch gstep stats True"
  have b: "batch_size ?sys = None" by (rule batch_size_System_init)
  have g: "logger ?sys" by (simp add: logger_System_init)
  have 1: "run_logs (log_loss ?sys (Tensor v) mode) = (Inl (AttributeError ''batch_size''), [])"
    using run_logs_step_epoch_unset [OF b, of _ _ "[]"] by simp
  have 2: "run_logs (log_loss ?sys (PyDict ((name, subloss) # d)) mode)
             = (Inl (AttributeError ''batch_size''), [])"
    using run_logs_step_epoch_unset [OF b] by simp
  have 0: "run_logs (log_loss ?sys PyNone mode) = (Inr (), [])" by simp
  have 3: "log_metrics ?sys (PyDict ((name, metric) # ms)) mode
             = (Inl (AttributeError ''batch_size''), [])"
    using run_logs_step_epoch_unset [OF b] by simp
  show "log_stats ?sys (Tensor v) m mode batch_idx = (Inl (AttributeError ''batch_size''), [])"
    by (rule log_stats_loss_raises [OF g 1])
  show "log_stats ?sys (PyDict ((name, subloss) # d)) m mode batch_idx
          = (Inl (AttributeError ''batch_size''), [])"
    by (rule log_stats_loss_raises [OF g 2])
  show "log_stats ?sys PyNone (PyDict ((name, metric) # ms)) mode batch_idx
          = (Inl (AttributeError ''batch_size''), [])"
    using log_stats_metrics_raises [OF g 0 3] by simp
qed

text \<open>
  C6: in train mode at batch index 0, with a logger and optimizer stats to log, the stats
  logger does not log them. On a System as the constructor builds it the call of
  \<^verbatim>\<open>_log\<close> for the first stat raises the AttributeError of the attribute
  \<^verbatim>\<open>batch_size\<close>. Once that attribute has been set, the metrics of a single metric,
  which are a tensor and not a mapping, raise the AttributeError of \<^verbatim>\<open>items\<close> before
  the optimizer part is reached.
\<close>

theorem log_stats_optimizer_stats_not_logged:
  "log_stats (System_init mdl opt crit mtr infr hasarg epoch gstep
                (\<lambda>x. (name, stat) # stats) True)
       PyNone PyNone TRAIN 0
     = (Inl (AttributeError ''batch_size''), [])
   \<and> log_stats ((System_init mdl opt crit mtr infr hasarg epoch gstep
                   (\<lambda>x. (name, stat) # stats) True)\<lparr>batch_size := Some n\<rparr>)
       PyNone (Tensor v) TRAIN 0
     = (Inl (AttributeError ''items''), [])"
proof (intro conjI)
  let ?sys = "System_init mdl opt crit mtr infr hasarg epoch gstep (\<lambda>x. (name, stat) # stats) True"
  have b: "batch_size ?sys = None" by (rule batch_size_System_init)
  have g: "logger ?sys" by (simp add: logger_System_init)
  have g': "logger (?sys\<lparr>batch_size := Some n\<rparr>)" by (simp add: logger_System_init)
  have s: "get_optimizer_stats ?sys (optimizer ?sys) = (name, stat) # stats"
    by (simp add: System_init_def)
  have 0: "run_logs (log_loss ?sys PyNone TRAIN) = (Inr (), [])" by simp
  have z: "run_logs (log_loss (?sys\<lparr>batch_size := Some n\<rparr>) PyNone TRAIN) = (Inr (), [])" by simp
  have 1: "log_metrics ?sys PyNone TRAIN = (Inr (), [])" by simp
  have 2: "run_logs (log_optimizer ?sys TRAIN 0) = (Inl (AttributeError ''batch_size''), [])"
    by (simp add: log_optimizer_def s log_entry_unset [OF b])
  have 3: "log_metrics (?sys\<lparr>batch_size := Some n\<rparr>) (Tensor v) TRAIN = (Inl (AttributeError ''items''), [])"
    by simp
  show "log_stats ?sys PyNone PyNone TRAIN 0 = (Inl (AttributeError ''batch_size''), [])"
    using log_stats_optimizer_raises [OF g 0 1 2] by simp
  show "log_stats (?sys\<lparr>batch_size := Some n\<rparr>) PyNone (Tensor v) TRAIN 0
          = (Inl (AttributeError ''items''), [])"
    using log_stats_metrics_raises [OF g' z 3] by simp
qed

section \<open>Properties of the learning rate property\<close>

lemma map_of_update_same: "map_of (AList.update k v al) k = Some v"
  by (simp add: update_conv')

text \<open>
  C8: with more than one parameter group, reading the learning rate and writing it both
  raise the ValueError whose message names the multiple parameter groups, and the write
  leaves the System, and so its optimizer, as it was. With exactly one group, reading
  returns the entry lr of that group, and writing stores the value there, so that a read
  after the write returns it.
\<close>

theorem learning_rate_single_group:
  assumes "optimizer sys = Some opt"
  shows "(1 < length (param_groups opt) \<longrightarrow>
            learning_rate sys = Inl (ValueError multi_group_message)
            \<and> set_learning_rate sys val = (Inl (ValueError multi_group_message), sys))
     \<and> (\<forall>g lr. param_groups opt = [g] \<and> map_of g ''lr'' = Some lr \<longrightarrow> learning_rate sys = Inr lr)
     \<and> (\<forall>g. param_groups opt = [g] \<longrightarrow>
            set_learning_rate sys val =
              (Inr (), sys\<lparr>optimizer := Some (opt\<lparr>param_groups := [AList.update ''lr'' val g]\<rparr>)\<rparr>)
            \<and> learning_rate (snd (set_learning_rate sys val)) = Inr val)
     \<and> sublist ''multiple optimizer parameter groups'' multi_group_message"
proof (intro conjI impI allI)
  assume "1 < length (param_groups opt)"
  then show "learning_rate sys = Inl (ValueError multi_group_message)"
    and "set_learning_rate sys val = (Inl (ValueError multi_group_message), sys)"
    using assms by (simp_all add: learning_rate_def set_learning_rate_def)
next
  fix g lr assume "param_groups opt = [g] \<and> map_of g ''lr'' = Some lr"
  then show "learning_rate sys = Inr lr"
    using assms by (simp add: learning_rate_def)
next
  fix g assume g: "param_groups opt = [g]"
  then show s: "set_learning_rate sys val =
              (Inr (), sys\<lparr>optimizer := Some (opt\<lparr>param_groups := [AList.update ''lr'' val g]\<rparr>)\<rparr>)"
    using assms by (simp add: set_learning_rate_def)
  show "learning_rate (snd (set_learning_rate sys val)) = Inr val"
    by (simp add: s learning_rate_def map_of_update_same)
next
  show "sublist ''multiple optimizer parameter groups'' multi_group_message"
    unfolding multi_group_message_def by code_simp
qed

theorem learning_rate_single_group_witness:
  "learning_rate (example_system\<lparr>optimizer :=
       Some \<lparr>param_groups = [[(''lr'', Tensor 1)], [(''lr'', Tensor 2)]]\<rparr>\<rparr>)
     = Inl (ValueError multi_group_message)
   \<and> set_learning_rate (example_system\<lparr>optimizer :=
       Some \<lparr>param_groups = [[(''lr'', Tensor 1)], [(''lr'', Tensor 2)]]\<rparr>\<rparr>) (Tensor 7)
     = (Inl (ValueError multi_group_message),
        example_system\<lparr>optimizer :=
          Some \<lparr>param_groups = [[(''lr'', Tensor 1)], [(''lr'', Tensor 2)]]\<rparr>\<rparr>)
   \<and> learning_rate (example_system\<lparr>optimizer :=
       Some \<lparr>param_groups = [[(''lr'', Tensor 1), (''momentum'', Tensor 9)]]\<rparr>\<rparr>)
     = Inr (Tensor 1)
   \<and> set_learning_rate (example_system\<lparr>optimizer :=
       Some \<lparr>param_groups = [[(''lr'', Tensor 1), (''momentum'', Tensor 9)]]\<rparr>\<rparr>) (Tensor 7)
     = (Inr (), example_system\<lparr>optimizer :=
          Some \<lparr>param_groups = [[(''lr'', Tensor 7), (''momentum'', Tensor 9)]]\<rparr>\<rparr>)"
proof -
  let ?two = "\<lparr>param_groups = [[(''lr'', Tensor (1::int))], [(''lr'', Tensor 2)]]\<rparr>"
  let ?one = "\<lparr>param_groups = [[(''lr'', Tensor (1::int)), (''momentum'', Tensor 9)]]\<rparr>"
  have o2: "optimizer (example_system\<lparr>optimizer := Some ?two\<rparr>) = Some ?two" by simp
  have o1: "optimizer (example_system\<lparr>optimizer := Some ?one\<rparr>) = Some ?one" by simp
  have l2: "1 < length (param_groups ?two)" by simp
  have g1: "param_groups ?one = [[(''lr'', Tensor 1), (''momentum'', Tensor 9)]]
              \<and> map_of [(''lr'', Tensor (1::int)), (''momentum'', Tensor 9)] ''lr'' = Some (Tensor 1)"
    by simp
  have g1': "param_groups ?one = [[(''lr'', Tensor 1), (''momentum'', Tensor 9)]]" by simp
  note a = learning_rate_single_group [OF o2, of "Tensor 7", THEN conjunct1, rule_format, OF l2]
  note b = learning_rate_single_group [OF o1, of "Tensor 7", THEN conjunct2, THEN conjunct1, rule_format, OF g1]
  note c = learning_rate_single_group [OF o1, of "Tensor 7", THEN conjunct2, THEN conjunct2, THEN conjunct1,
             rule_format, OF g1', THEN conjunct1]
  have c': "set_learning_rate (example_system\<lparr>optimizer := Some ?one\<rparr>) (Tensor 7)
     = (Inr (), example_system\<lparr>optimizer :=
          Some \<lparr>param_groups = [[(''lr'', Tensor 7), (''momentum'', Tensor 9)]]\<rparr>\<rparr>)"
    using c by simp
  from a b c' show ?thesis by (intro conjI) (rule conjunct1, assumption, rule conjunct2, assumption, assumption+)
qed

section \<open>Properties of the command line\<close>

lemma import_projects_exited:
  "fst (import_projects load configs imported) \<longleftrightarrow>
     (if imported then 1 \<le> length (filter (declares_project load) configs)
      else 2 \<le> length (filter (declares_project load) configs))"
  by (induction configs arbitrary: imported)
     (auto simp: declares_project_def split_beta split: option.splits)

lemma import_projects_no_run:
  "filter is_run (snd (import_projects load configs imported)) = []"
  by (induction configs arbitrary: imported)
     (auto simp: split_beta split: option.splits)

lemma import_projects_errors:
  "(fst (import_projects load configs imported) \<longrightarrow>
      length (filter is_logger_error (snd (import_projects load configs imported))) = Suc 0)
   \<and> (\<not> fst (import_projects load configs imported) \<longrightarrow>
      filter is_logger_error (snd (import_projects load configs imported)) = [])"
  by (induction configs arbitrary: imported)
     (auto simp: split_beta split: option.splits)

lemma import_projects_last:
  "fst (import_projects load configs imported) \<Longrightarrow>
   snd (import_projects load configs imported) \<noteq> []
   \<and> is_logger_error (last (snd (import_projects load configs imported)))"
  by (induction configs arbitrary: imported)
     (auto simp: split_beta split: option.splits if_splits)

lemma import_projects_imports:
  "(imported \<or> filter (declares_project load) configs = [] \<longrightarrow>
      filter is_import (snd (import_projects load configs imported)) = [])
   \<and> (\<not> imported \<and> filter (declares_project load) configs \<noteq> [] \<longrightarrow>
      length (filter is_import (snd (import_projects load configs imported))) = Suc 0)"
  by (induction configs arbitrary: imported)
     (auto simp: declares_project_def split_beta split: option.splits)

lemma run_trainer_method_Some:
  "run_trainer_method load name (Some configs) =
     (if fst (import_projects load configs False)
      then (Exited, snd (import_projects load configs False))
      else if name \<in> set trainer_methods
      then (Returned, snd (import_projects load configs False) @ [Run name])
      else (Raised (KeyError name), snd (import_projects load configs False)))"
  by (simp add: run_trainer_method_def split_beta)

text \<open>
  C9: when two or more of the config files declare the key project, the run logs one
  error, as its last action, and exits; the Trainer method is not run. When at most one
  config file declares it (or no config file is given), the project is imported as often
  as it is declared, which is at most once, nothing is logged as an error, and the Trainer
  method of a registered name is run as the last action.
\<close>

theorem project_declared_once:
  "(2 \<le> length (filter (declares_project load) configs) \<longrightarrow>
      fst (run_trainer_method load name (Some configs)) = Exited
      \<and> length (filter is_logger_error (snd (run_trainer_method load name (Some configs)))) = 1
      \<and> is_logger_error (last (snd (run_trainer_method load name (Some configs))))
      \<and> filter is_run (snd (run_trainer_method load name (Some configs))) = []
      \<and> length (filter is_import (snd (run_trainer_method load name (Some configs)))) = 1)
   \<and> (length (filter (declares_project load) configs) \<le> 1 \<and> name \<in> set trainer_methods \<longrightarrow>
      fst (run_trainer_method load name (Some configs)) = Returned
      \<and> length (filter is_import (snd (run_trainer_method load name (Some configs))))
          = length (filter (declares_project load) configs)
      \<and> filter is_logger_error (snd (run_trainer_method load name (Some configs))) = []
      \<and> filter is_run (snd (run_trainer_method load name (Some configs))) = [Run name]
      \<and> last (snd (run_trainer_method load name (Some configs))) = Run name)
   \<and> (name \<in> set trainer_methods \<longrightarrow>
      run_trainer_method load name None = (Returned, [Run name]))"
proof (intro conjI impI)
  assume two: "2 \<le> length (filter (declares_project load) configs)"
  then have ex: "fst (import_projects load configs False)"
    by (simp add: import_projects_exited)
  have ne: "filter (declares_project load) configs \<noteq> []" using two by auto
  from ex show "fst (run_trainer_method load name (Some configs)) = Exited"
    by (simp add: run_trainer_method_Some)
  from ex show "length (filter is_logger_error (snd (run_trainer_method load name (Some configs)))) = 1"
    using import_projects_errors [of load configs False] by (simp add: run_trainer_method_Some)
  from ex show "is_logger_error (last (snd (run_trainer_method load name (Some configs))))"
    using import_projects_last [of load configs False] by (simp add: run_trainer_method_Some)
  from ex show "filter is_run (snd (run_trainer_method load name (Some configs))) = []"
    by (simp add: run_trainer_method_Some import_projects_no_run)
  from ex ne show "length (filter is_import (snd (run_trainer_method load name (Some configs)))) = 1"
    using import_projects_imports [of False load configs] by (simp add: run_trainer_method_Some)
next
  assume a: "length (filter (declares_project load) configs) \<le> 1 \<and> name \<in> set trainer_methods"
  then have nex: "\<not> fst (import_projects load configs False)"
    by (simp add: import_projects_exited)
  from a have nm: "name \<in> set trainer_methods" by simp
  from nex nm show "fst (run_trainer_method load name (Some configs)) = Returned"
    by (simp add: run_trainer_method_Some)
  show "length (filter is_import (snd (run_trainer_method load name (Some configs))))
          = length (filter (declares_project load) configs)"
  proof (cases "filter (declares_project load) configs = []")
    case True
    with nex nm show ?thesis
      using import_projects_imports [of False load configs] by (simp add: run_trainer_method_Some)
  next
    case False
    with a have "length (filter (declares_project load) configs) = 1"
      by (cases "filter (declares_project load) configs") auto
    with False nex nm show ?thesis
      using import_projects_imports [of False load configs] by (simp add: run_trainer_method_Some)
  qed
  from nex nm show "filter is_logger_error (snd (run_trainer_method load name (Some configs))) = []"
    using import_projects_errors [of load configs False] by (simp add: run_trainer_method_Some)
  from nex nm show "filter is_run (snd (run_trainer_method load name (Some configs))) = [Run name]"
    by (simp add: run_trainer_method_Some import_projects_no_run)
  from nex nm show "last (snd (run_trainer_method load name (Some configs))) = Run name"
    by (simp add: run_trainer_method_Some)
next
  assume "name \<in> set trainer_methods"
  then show "run_trainer_method load name None = (Returned, [Run name])"
    by (simp add: run_trainer_method_def)
qed

theorem project_declared_once_witness:
  "run_trainer_method
      (\<lambda>f. if f = ''a.yaml'' \<or> f = ''b.yaml'' then [(''project'', ''./proj'')] else [(''trainer'', ''t'')])
      ''fit'' (Some [''a.yaml'', ''c.yaml'', ''b.yaml''])
     = (Exited, [ImportModule ''project'' ''./proj'',
                 LoggerError ''`project` must be specified in one config only.''])
   \<and> run_trainer_method
      (\<lambda>f. if f = ''a.yaml'' \<or> f = ''b.yaml'' then [(''project'', ''./proj'')] else [(''trainer'', ''t'')])
      ''fit'' (Some [''c.yaml'', ''a.yaml''])
     = (Returned, [ImportModule ''project'' ''./proj'', Run ''fit''])
   \<and> run_trainer_method
      (\<lambda>f. if f = ''a.yaml'' \<or> f = ''b.yaml'' then [(''project'', ''./proj'')] else [(''trainer'', ''t'')])
      ''fit'' None
     = (Returned, [Run ''fit''])"
proof -
  let ?load = "\<lambda>f. if f = ''a.yaml'' \<or> f = ''b.yaml'' then [(''project'', ''./proj'')]
                   else [(''trainer'', ''t'')]"
  have two: "2 \<le> length (filter (declares_project ?load) [''a.yaml'', ''c.yaml'', ''b.yaml''])"
    by (simp add: declares_project_def)
  have one: "length (filter (declares_project ?load) [''c.yaml'', ''a.yaml'']) \<le> 1
               \<and> ''fit'' \<in> set trainer_methods"
    by (simp add: declares_project_def trainer_methods_def)
  have fit: "''fit'' \<in> set trainer_methods" by (simp add: trainer_methods_def)
  have e1: "snd (run_trainer_method ?load ''fit'' (Some [''a.yaml'', ''c.yaml'', ''b.yaml'']))
      = [ImportModule ''project'' ''./proj'',
         LoggerError ''`project` must be specified in one config only.'']"
    by (simp add: run_trainer_method_def)
  have e2: "snd (run_trainer_method ?load ''fit'' (Some [''c.yaml'', ''a.yaml'']))
      = [ImportModule ''project'' ''./proj'', Run ''fit'']"
    by (simp add: run_trainer_method_def trainer_methods_def)
  note t1 = project_declared_once [of ?load "[''a.yaml'', ''c.yaml'', ''b.yaml'']" "''fit''",
      THEN conjunct1, rule_format, OF two]
  note t2 = project_declared_once [of ?load "[''c.yaml'', ''a.yaml'']" "''fit''",
      THEN conjunct2, THEN conjunct1, rule_format, OF one]
  note t3 = project_declared_once [of ?load "[]" "''fit''",
      THEN conjunct2, THEN conjunct2, rule_format, OF fit]
  from t1 have f1: "fst (run_trainer_method ?load ''fit'' (Some [''a.yaml'', ''c.yaml'', ''b.yaml''])) = Exited"
    by (rule conjunct1)
  from t2 have f2: "fst (run_trainer_method ?load ''fit'' (Some [''c.yaml'', ''a.yaml''])) = Returned"
    by (rule conjunct1)
  have r1: "run_trainer_method ?load ''fit'' (Some [''a.yaml'', ''c.yaml'', ''b.yaml''])
     = (Exited, [ImportModule ''project'' ''./proj'',
                 LoggerError ''`project` must be specified in one config only.''])"
    using f1 e1 by (simp only: prod_eq_iff fst_conv snd_conv simp_thms)
  have r2: "run_trainer_method ?load ''fit'' (Some [''c.yaml'', ''a.yaml''])
     = (Returned, [ImportModule ''project'' ''./proj'', Run ''fit''])"
    using f2 e2 by (simp only: prod_eq_iff fst_conv snd_conv simp_thms)
  from r1 r2 t3 show ?thesis by (intro conjI)
qed

end
